theory Spec2Isabelle
  imports Main "HOL-Library.Word"
begin

unbundle bit_operations_syntax

section \<open>Data model (package model)\<close>

text \<open>
  Go's \<^verbatim>\<open>error\<close> interface is modelled by its message: \<open>None\<close> is \<^verbatim>\<open>nil\<close>.
  A \<^verbatim>\<open>time.Time\<close> is modelled by its clock reading. A \<^verbatim>\<open>uuid.UUID\<close> is Go's
  \<^verbatim>\<open>[16]byte\<close>. The three named string types of the package (notification type, status
  and priority) stay strings, as in the source: any string is a value of them.
\<close>

type_synonym error = string
type_synonym time = nat
type_synonym UUID = "8 word list"

text \<open>A value of \<^verbatim>\<open>interface{}\<close>, by the dynamic types the code distinguishes
  (\<^verbatim>\<open>string\<close>, \<^verbatim>\<open>time.Time\<close>, \<^verbatim>\<open>*time.Time\<close>); a value of any other dynamic type is carried
  by its \<^verbatim>\<open>%v\<close> rendering.\<close>

datatype any = AString string | ATime time | ATimePtr "time option" | AOther string

definition NotificationStatusPending :: string where
  "NotificationStatusPending = ''pending''"

definition NotificationStatusSent :: string where
  "NotificationStatusSent = ''sent''"

definition NotificationStatusFailed :: string where
  "NotificationStatusFailed = ''failed''"

definition NotificationPriorityNormal :: string where
  "NotificationPriorityNormal = ''normal''"

definition NotificationPriorityHigh :: string where
  "NotificationPriorityHigh = ''high''"

definition NotificationPriorityUrgent :: string where
  "NotificationPriorityUrgent = ''urgent''"

record Notification =
  ID :: UUID
  Type :: string
  Status :: string
  Priority :: string
  Recipient :: string
  Subject :: string
  Content :: string
  TemplateID :: string
  Data :: "(string \<times> any) list"
  SentAt :: "time option"
  ReadAt :: "time option"
  CreatedAt :: time
  UpdatedAt :: time

record CreateNotificationRequest =
  req_Type :: string
  req_Priority :: string
  req_Recipient :: string
  req_Subject :: string
  req_Content :: string
  req_TemplateID :: string
  req_Data :: "(string \<times> any) list"

record BulkNotificationRequest =
  bulk_Notifications :: "CreateNotificationRequest list"
  bulk_TemplateID :: string
  bulk_Priority :: string

record EventNotification =
  ev_EventID :: string
  ev_EventName :: string
  ev_EventDate :: time
  ev_Location :: string
  ev_Recipient :: string
  ev_Type :: string
  ev_Priority :: string

section \<open>The transports and the environment\<close>

text \<open>What the service hands to SES: the fields of \<^verbatim>\<open>ses.SendEmailInput\<close> that
  \<^verbatim>\<open>sendEmailNotification\<close> fills.\<close>

record SendEmailInput =
  Source :: string
  ToAddresses :: "string list"
  SubjectData :: string
  SubjectCharset :: string
  BodyTextData :: string
  BodyTextCharset :: string

text \<open>\<^verbatim>\<open>queue.SQSClient\<close>, by the queue it addresses, and the three clients the
  service holds.\<close>

record SQSClient =
  QueueURL :: string

record NotificationService =
  eventQueue :: SQSClient
  reservationQueue :: SQSClient
  reminderQueue :: SQSClient

text \<open>\<^verbatim>\<open>queue.EventNotificationMessage\<close>, the body of a message on the events queue.\<close>

record EventNotificationMessage =
  msg_EventID :: string
  msg_EventName :: string
  msg_EventDate :: string
  msg_Location :: string
  msg_Recipient :: string
  msg_Type :: string
  msg_Priority :: string
  msg_TemplateID :: string

text \<open>A received SQS message, by the three fields the service reads.\<close>

record Message =
  MessageId :: string
  ReceiptHandle :: string
  Body :: string

text \<open>The calls \<^verbatim>\<open>queue.SQSClient\<close> makes on the SQS API, each with the queue URL it is
  addressed to. A send carries the marshalled message (a struct of strings, which
  \<^verbatim>\<open>json.Marshal\<close> always encodes) and its message attributes; a receive carries
  \<^verbatim>\<open>MaxNumberOfMessages\<close>, \<^verbatim>\<open>WaitTimeSeconds\<close> and \<^verbatim>\<open>MessageAttributeNames\<close>; a delete
  carries the receipt handle.\<close>

datatype sqs_op =
    SendMessage string EventNotificationMessage "(string \<times> string) list"
  | ReceiveMessage string nat nat "string list"
  | DeleteMessage string string

text \<open>The request \<^verbatim>\<open>UpdateNotification\<close> hands to DynamoDB. A Go map is a partial
  function, or \<open>None\<close> when it is \<^verbatim>\<open>nil\<close>; an attribute value is the string of its
  \<^verbatim>\<open>AttributeValueMemberS\<close>, the only member the function builds.\<close>

record UpdateItemInput =
  TableName :: string
  Key :: "(string \<times> string) list"
  UpdateExpression :: string
  ExpressionAttributeNames :: "(string \<rightharpoonup> string) option"
  ExpressionAttributeValues :: "(string \<rightharpoonup> string) option"

text \<open>
  Everything outside the process, as explicit state.
  \<^item> The clock: \<^verbatim>\<open>time.Now\<close> readings taken in one process compare by Go's monotonic clock,
    so a reading is the previous one plus an elapsed duration, \<open>clock_advance\<close> of the
    number of readings taken so far.
  \<^item> The random source that \<^verbatim>\<open>uuid.New\<close> reads, as a stream of bytes.
  \<^item> SES, SQS and DynamoDB: the log of calls made so far, and the outcome of the call
    with a given index in that log (\<open>None\<close> is success).
  \<^item> \<^verbatim>\<open>time.Time.Format\<close>, from layout and time to text.
\<close>

record world =
  clock :: time
  clock_reads :: nat
  clock_advance :: "nat \<Rightarrow> nat"
  rand_pos :: nat
  rand_src :: "nat \<Rightarrow> 8 word"
  ses_calls :: "SendEmailInput list"
  ses_outcome :: "nat \<Rightarrow> error option"
  sqs_ops :: "sqs_op list"
  sqs_send_outcome :: "nat \<Rightarrow> error option"
  sqs_receive_outcome :: "nat \<Rightarrow> error + Message list"
  sqs_delete_outcome :: "nat \<Rightarrow> error option"
  dynamo_calls :: "UpdateItemInput list"
  dynamo_outcome :: "nat \<Rightarrow> error option"
  time_Format :: "string \<Rightarrow> time \<Rightarrow> string"

definition time_Now :: "world \<Rightarrow> time \<times> world" where
  "time_Now w =
     (let t = clock w + clock_advance w (clock_reads w)
      in (t, w\<lparr>clock := t, clock_reads := Suc (clock_reads w)\<rparr>))"

subsection \<open>UUIDs (github.com/google/uuid)\<close>

text \<open>\<^verbatim>\<open>uuid.New\<close> fills the 16 bytes from the random source, then stamps version 4 into
  byte 6 and the RFC 4122 variant into byte 8.\<close>

definition uuid_Nil :: UUID where
  "uuid_Nil = replicate 16 0"

definition uuid_New :: "world \<Rightarrow> UUID \<times> world" where
  "uuid_New w =
     (let uuid = map (rand_src w) [rand_pos w ..< rand_pos w + 16];
          uuid = uuid[6 := ((uuid ! 6) AND 0x0f) OR 0x40];
          uuid = uuid[8 := ((uuid ! 8) AND 0x3f) OR 0x80]
      in (uuid, w\<lparr>rand_pos := rand_pos w + 16\<rparr>))"

definition hextable :: string where
  "hextable = ''0123456789abcdef''"

definition encodeHexByte :: "8 word \<Rightarrow> string" where
  "encodeHexByte b = [hextable ! unat (drop_bit 4 b), hextable ! unat (b AND 0x0f)]"

definition encodeHex :: "8 word list \<Rightarrow> string" where
  "encodeHex bs = concat (map encodeHexByte bs)"

text \<open>\<^verbatim>\<open>UUID.String\<close>: the form xxxxxxxx-xxxx-xxxx-xxxx-xxxxxxxxxxxx.\<close>

definition uuid_String :: "UUID \<Rightarrow> string" where
  "uuid_String uuid =
     encodeHex (take 4 uuid) @ ''-'' @ encodeHex (take 2 (drop 4 uuid)) @ ''-'' @
     encodeHex (take 2 (drop 6 uuid)) @ ''-'' @ encodeHex (take 2 (drop 8 uuid)) @ ''-'' @
     encodeHex (drop 10 uuid)"

subsection \<open>SES\<close>

definition ses_SendEmail :: "world \<Rightarrow> SendEmailInput \<Rightarrow> error option \<times> world" where
  "ses_SendEmail w params =
     (ses_outcome w (length (ses_calls w)), w\<lparr>ses_calls := ses_calls w @ [params]\<rparr>)"

section \<open>The notification service (package service)\<close>

text \<open>The \<^verbatim>\<open>log.Printf\<close> lines of the source write to the process log only; they are left
  out of the model.\<close>

definition sendEmailNotification :: "world \<Rightarrow> Notification \<Rightarrow> error option \<times> world" where
  "sendEmailNotification w notification =
     (let emailInput = \<lparr>Source = ''notifications@ticket-system.com'',
                         ToAddresses = [Recipient notification],
                         SubjectData = Subject notification,
                         SubjectCharset = ''UTF-8'',
                         BodyTextData = Content notification,
                         BodyTextCharset = ''UTF-8''\<rparr>;
          (err, w') = ses_SendEmail w emailInput
      in case err of
           Some e \<Rightarrow> (Some (''error sending email via SES: '' @ e), w')
         | None \<Rightarrow> (None, w'))"

definition SendNotification ::
  "world \<Rightarrow> CreateNotificationRequest \<Rightarrow> (Notification \<times> error option) \<times> world" where
  "SendNotification w req =
     (let (uuid, w1) = uuid_New w;
          (created, w2) = time_Now w1;
          (updated, w3) = time_Now w2;
          notification = \<lparr>ID = uuid,
                           Type = req_Type req,
                           Status = NotificationStatusPending,
                           Priority = req_Priority req,
                           Recipient = req_Recipient req,
                           Subject = req_Subject req,
                           Content = req_Content req,
                           TemplateID = req_TemplateID req,
                           Data = req_Data req,
                           SentAt = None,
                           ReadAt = None,
                           CreatedAt = created,
                           UpdatedAt = updated\<rparr>;
          notification =
            (if Priority notification = ''''
             then notification\<lparr>Priority := NotificationPriorityNormal\<rparr>
             else notification);
          (err, w4) = sendEmailNotification w3 notification
      in case err of
           Some e \<Rightarrow> ((notification\<lparr>Status := NotificationStatusFailed\<rparr>, None), w4)
         | None \<Rightarrow>
             (let (now, w5) = time_Now w4
              in ((notification\<lparr>Status := NotificationStatusSent, SentAt := Some now\<rparr>, None),
                  w5)))"

text \<open>The loop of \<^verbatim>\<open>SendBulkNotifications\<close> over \<^verbatim>\<open>req.Notifications\<close>, with its two
  accumulators. The loop variable is a copy of the item, so the overrides do not touch
  the request.\<close>

fun SendBulkNotifications_loop ::
  "BulkNotificationRequest \<Rightarrow> world \<Rightarrow> CreateNotificationRequest list \<Rightarrow>
   Notification list \<Rightarrow> error list \<Rightarrow> (Notification list \<times> error list) \<times> world" where
  "SendBulkNotifications_loop req w [] notifications errors = ((notifications, errors), w)"
| "SendBulkNotifications_loop req w (item # rest) notifications errors =
     (let notificationReq =
            (if bulk_Priority req \<noteq> ''''
             then item\<lparr>req_Priority := bulk_Priority req\<rparr> else item);
          notificationReq =
            (if bulk_TemplateID req \<noteq> ''''
             then notificationReq\<lparr>req_TemplateID := bulk_TemplateID req\<rparr>
             else notificationReq);
          ((notification, err), w') = SendNotification w notificationReq
      in case err of
           Some e \<Rightarrow>
             SendBulkNotifications_loop req w' rest notifications
               (errors @ [''error sending notification to '' @ req_Recipient notificationReq
                          @ '': '' @ e])
         | None \<Rightarrow>
             SendBulkNotifications_loop req w' rest (notifications @ [notification]) errors)"

definition SendBulkNotifications ::
  "world \<Rightarrow> BulkNotificationRequest \<Rightarrow> (Notification list \<times> error option) \<times> world" where
  "SendBulkNotifications w req =
     (let ((notifications, errors), w') =
            SendBulkNotifications_loop req w (bulk_Notifications req) [] []
      in ((notifications, None), w'))"

section \<open>The queue client (package queue)\<close>

definition sqs_SendMessage ::
  "world \<Rightarrow> string \<Rightarrow> EventNotificationMessage \<Rightarrow> (string \<times> string) list \<Rightarrow>
   error option \<times> world" where
  "sqs_SendMessage w url body attrs =
     (sqs_send_outcome w (length (sqs_ops w)),
      w\<lparr>sqs_ops := sqs_ops w @ [SendMessage url body attrs]\<rparr>)"

definition sqs_ReceiveMessage ::
  "world \<Rightarrow> string \<Rightarrow> nat \<Rightarrow> nat \<Rightarrow> string list \<Rightarrow> (error + Message list) \<times> world" where
  "sqs_ReceiveMessage w url maxNumber waitSeconds names =
     (sqs_receive_outcome w (length (sqs_ops w)),
      w\<lparr>sqs_ops := sqs_ops w @ [ReceiveMessage url maxNumber waitSeconds names]\<rparr>)"

definition sqs_DeleteMessage :: "world \<Rightarrow> string \<Rightarrow> string \<Rightarrow> error option \<times> world" where
  "sqs_DeleteMessage w url receiptHandle =
     (sqs_delete_outcome w (length (sqs_ops w)),
      w\<lparr>sqs_ops := sqs_ops w @ [DeleteMessage url receiptHandle]\<rparr>)"

definition SendEventNotification ::
  "world \<Rightarrow> SQSClient \<Rightarrow> EventNotificationMessage \<Rightarrow> error option \<times> world" where
  "SendEventNotification w s msg =
     (let (err, w') =
            sqs_SendMessage w (QueueURL s) msg
              [(''Type'', ''event_notification''),
               (''EventID'', msg_EventID msg),
               (''Priority'', msg_Priority msg)]
      in case err of
           Some e \<Rightarrow> (Some (''error sending event notification: '' @ e), w')
         | None \<Rightarrow> (None, w'))"

definition ReceiveMessages ::
  "world \<Rightarrow> SQSClient \<Rightarrow> nat \<Rightarrow> (error + Message list) \<times> world" where
  "ReceiveMessages w s maxMessages =
     (let (resp, w') = sqs_ReceiveMessage w (QueueURL s) maxMessages 10 [''All'']
      in case resp of
           Inl e \<Rightarrow> (Inl (''error receiving SQS messages: '' @ e), w')
         | Inr messages \<Rightarrow> (Inr messages, w'))"

definition DeleteMessage_client ::
  "world \<Rightarrow> SQSClient \<Rightarrow> string \<Rightarrow> error option \<times> world" where
  "DeleteMessage_client w s receiptHandle =
     (let (err, w') = sqs_DeleteMessage w (QueueURL s) receiptHandle
      in case err of
           Some e \<Rightarrow> (Some (''error deleting SQS message: '' @ e), w')
         | None \<Rightarrow> (None, w'))"

section \<open>Event notifications\<close>

definition RFC3339 :: string where
  "RFC3339 = ''2006-01-02T15:04:05Z07:00''"

definition NotifyEventCreated ::
  "world \<Rightarrow> NotificationService \<Rightarrow> EventNotification \<Rightarrow> error option \<times> world" where
  "NotifyEventCreated w s req =
     (let msg = \<lparr>msg_EventID = ev_EventID req,
                  msg_EventName = ev_EventName req,
                  msg_EventDate = time_Format w RFC3339 (ev_EventDate req),
                  msg_Location = ev_Location req,
                  msg_Recipient = ev_Recipient req,
                  msg_Type = ev_Type req,
                  msg_Priority = ev_Priority req,
                  msg_TemplateID = ''event_created_template''\<rparr>;
          (err, w1) = SendEventNotification w (eventQueue s) msg
      in case err of
           Some e \<Rightarrow> (Some (''error sending event notification to queue: '' @ e), w1)
         | None \<Rightarrow>
             if ev_Priority req = NotificationPriorityHigh
                \<or> ev_Priority req = NotificationPriorityUrgent
             then
               (let (uuid, w2) = uuid_New w1;
                    (created, w3) = time_Now w2;
                    (updated, w4) = time_Now w3;
                    notification =
                      \<lparr>ID = uuid,
                       Type = ev_Type req,
                       Status = NotificationStatusPending,
                       Priority = ev_Priority req,
                       Recipient = ev_Recipient req,
                       Subject = ''Nuevo Evento: '' @ ev_EventName req,
                       Content = ''Se ha creado un nuevo evento: '' @ ev_EventName req @ '' en ''
                                 @ ev_Location req @ '' el ''
                                 @ time_Format w ''02/01/2006 15:04'' (ev_EventDate req),
                       TemplateID = [],
                       Data = [],
                       SentAt = None,
                       ReadAt = None,
                       CreatedAt = created,
                       UpdatedAt = updated\<rparr>;
                    (err, w5) = sendEmailNotification w4 notification
                in (None, w5))
             else (None, w1))"

definition NotifyEventCancelled ::
  "world \<Rightarrow> NotificationService \<Rightarrow> EventNotification \<Rightarrow> error option \<times> world" where
  "NotifyEventCancelled w s req =
     (let msg = \<lparr>msg_EventID = ev_EventID req,
                  msg_EventName = ev_EventName req,
                  msg_EventDate = time_Format w RFC3339 (ev_EventDate req),
                  msg_Location = ev_Location req,
                  msg_Recipient = ev_Recipient req,
                  msg_Type = ev_Type req,
                  msg_Priority = ev_Priority req,
                  msg_TemplateID = ''event_cancelled_template''\<rparr>;
          (err, w1) = SendEventNotification w (eventQueue s) msg
      in case err of
           Some e \<Rightarrow> (Some (''error sending event cancellation to queue: '' @ e), w1)
         | None \<Rightarrow>
             (let (uuid, w2) = uuid_New w1;
                  (created, w3) = time_Now w2;
                  (updated, w4) = time_Now w3;
                  notification =
                    \<lparr>ID = uuid,
                     Type = ev_Type req,
                     Status = NotificationStatusPending,
                     Priority = ev_Priority req,
                     Recipient = ev_Recipient req,
                     Subject = ''Evento Cancelado: '' @ ev_EventName req,
                     Content = ''El evento '' @ [CHR 0x27] @ ev_EventName req @ [CHR 0x27]
                               @ '' programado para el ''
                               @ time_Format w ''02/01/2006 15:04'' (ev_EventDate req)
                               @ '' en '' @ ev_Location req @ '' ha sido cancelado.'',
                     TemplateID = [],
                     Data = [],
                     SentAt = None,
                     ReadAt = None,
                     CreatedAt = created,
                     UpdatedAt = updated\<rparr>;
                  (err, w5) = sendEmailNotification w4 notification
              in (None, w5)))"

section \<open>The queue processor\<close>

text \<open>\<^verbatim>\<open>processMessage\<close> logs the message, in each branch of its switch on the queue
  type, and returns \<^verbatim>\<open>nil\<close>; with the log left out nothing else remains.\<close>

definition processMessage :: "Message \<Rightarrow> string \<Rightarrow> error option" where
  "processMessage message queueType =
     (if queueType = ''events'' then None
      else if queueType = ''reservations'' then None
      else if queueType = ''reminders'' then None
      else None)"

text \<open>The loop of \<^verbatim>\<open>ProcessNotificationQueue\<close> over the received messages. The handler is
  an argument of the loop, so that both branches of its body can be exercised; the service
  runs it with \<open>processMessage\<close>. A failed delete is logged and the loop goes on.\<close>

fun ProcessNotificationQueue_loop ::
  "(Message \<Rightarrow> string \<Rightarrow> error option) \<Rightarrow> world \<Rightarrow> SQSClient \<Rightarrow> string \<Rightarrow> Message list \<Rightarrow>
   world" where
  "ProcessNotificationQueue_loop handler w client queueType [] = w"
| "ProcessNotificationQueue_loop handler w client queueType (message # rest) =
     (case handler message queueType of
        Some e \<Rightarrow> ProcessNotificationQueue_loop handler w client queueType rest
      | None \<Rightarrow>
          (let (err, w') = DeleteMessage_client w client (ReceiptHandle message)
           in ProcessNotificationQueue_loop handler w' client queueType rest))"

definition ProcessNotificationQueue ::
  "world \<Rightarrow> NotificationService \<Rightarrow> string \<Rightarrow> error option \<times> world" where
  "ProcessNotificationQueue w s queueType =
     (case (if queueType = ''events'' then Some (eventQueue s)
            else if queueType = ''reservations'' then Some (reservationQueue s)
            else if queueType = ''reminders'' then Some (reminderQueue s)
            else None) of
        None \<Rightarrow> (Some (''invalid queue type: '' @ queueType), w)
      | Some client \<Rightarrow>
          (let (r, w1) = ReceiveMessages w client 10
           in case r of
                Inl e \<Rightarrow> (Some (''error receiving messages: '' @ e), w1)
              | Inr messages \<Rightarrow>
                  (None, ProcessNotificationQueue_loop processMessage w1 client queueType
                           messages)))"

section \<open>The record store (package db)\<close>











section \<open>Reading the loop variables of UpdateNotification\<close>






section \<open>What the bulk loop gives each item\<close>

text \<open>Read off the body of the loop of \<^verbatim>\<open>SendBulkNotifications\<close>: the status of the item at
  position \<open>i\<close> follows the outcome of its SES call, call \<open>i\<close> after those already made;
  its priority and template are the batch's when that is non-empty, else the item's own
  (with the default priority of \<open>SendNotification\<close>).\<close>

definition item_status :: "world \<Rightarrow> nat \<Rightarrow> string" where
  "item_status w i =
     (if ses_outcome w (length (ses_calls w) + i) = None
      then NotificationStatusSent else NotificationStatusFailed)"

definition item_priority :: "BulkNotificationRequest \<Rightarrow> CreateNotificationRequest \<Rightarrow> string" where
  "item_priority req item =
     (if bulk_Priority req \<noteq> [] then bulk_Priority req
      else if req_Priority item = [] then NotificationPriorityNormal
      else req_Priority item)"

definition item_template :: "BulkNotificationRequest \<Rightarrow> CreateNotificationRequest \<Rightarrow> string" where
  "item_template req item =
     (if bulk_TemplateID req \<noteq> [] then bulk_TemplateID req else req_TemplateID item)"

section \<open>Sample inputs\<close>

text \<open>An environment in which every call succeeds, nothing has been called yet, and the
  events queue holds three messages.\<close>

definition sample_messages :: "Message list" where
  "sample_messages =
     [\<lparr>MessageId = ''m1'', ReceiptHandle = ''h1'', Body = ''b1''\<rparr>,
      \<lparr>MessageId = ''m2'', ReceiptHandle = ''h2'', Body = ''b2''\<rparr>,
      \<lparr>MessageId = ''m3'', ReceiptHandle = ''h3'', Body = ''b3''\<rparr>]"

definition world0 :: world where
  "world0 =
     \<lparr>clock = 1000, clock_reads = 0, clock_advance = (\<lambda>i. 1),
      rand_pos = 0, rand_src = (\<lambda>i. 0),
      ses_calls = [], ses_outcome = (\<lambda>i. None),
      sqs_ops = [], sqs_send_outcome = (\<lambda>i. None),
      sqs_receive_outcome = (\<lambda>i. Inr sample_messages),
      sqs_delete_outcome = (\<lambda>i. None),
      dynamo_calls = [], dynamo_outcome = (\<lambda>i. None),
      time_Format = (\<lambda>layout t. layout)\<rparr>"

text \<open>SES rejects every send; SES rejects the second and the fourth send; SQS refuses
  every send.\<close>

definition world_ses_down :: world where
  "world_ses_down = world0\<lparr>ses_outcome := (\<lambda>i. Some ''MessageRejected'')\<rparr>"

definition world_ses_2_4 :: world where
  "world_ses_2_4 =
     world0\<lparr>ses_outcome := (\<lambda>i. if i = 1 \<or> i = 3 then Some ''MessageRejected'' else None)\<rparr>"

definition world_sqs_down :: world where
  "world_sqs_down = world0\<lparr>sqs_send_outcome := (\<lambda>i. Some ''QueueDoesNotExist'')\<rparr>"

definition service0 :: NotificationService where
  "service0 =
     \<lparr>eventQueue = \<lparr>QueueURL = ''http://localhost:4566/000000000000/event-notifications''\<rparr>,
      reservationQueue =
        \<lparr>QueueURL = ''http://localhost:4566/000000000000/reservation-notifications''\<rparr>,
      reminderQueue =
        \<lparr>QueueURL = ''http://localhost:4566/000000000000/reminder-notifications''\<rparr>\<rparr>"

definition sample_request :: "string \<Rightarrow> CreateNotificationRequest" where
  "sample_request priority =
     \<lparr>req_Type = ''welcome'', req_Priority = priority, req_Recipient = ''a@example.com'',
      req_Subject = ''Hello'', req_Content = ''Welcome'', req_TemplateID = ''t1'',
      req_Data = []\<rparr>"

definition sample_bulk :: BulkNotificationRequest where
  "sample_bulk =
     \<lparr>bulk_Notifications = replicate 5 (sample_request ''low''),
      bulk_TemplateID = ''batch_template'', bulk_Priority = ''urgent''\<rparr>"

definition sample_event :: "string \<Rightarrow> EventNotification" where
  "sample_event priority =
     \<lparr>ev_EventID = ''e1'', ev_EventName = ''Concert'', ev_EventDate = 2000,
      ev_Location = ''Hall'', ev_Recipient = ''a@example.com'',
      ev_Type = ''event_created'', ev_Priority = priority\<rparr>"


section \<open>Properties of SendNotification\<close>

lemma length_encodeHex: "length (encodeHex bs) = 2 * length bs"
  by (induction bs) (simp_all add: encodeHex_def encodeHexByte_def)

lemma length_uuid_String: "length uuid = 16 \<Longrightarrow> length (uuid_String uuid) = 36"
  by (simp add: uuid_String_def length_encodeHex)

lemma version_byte_nonzero: "((b::8 word) AND 0x0f) OR 0x40 \<noteq> 0"
  by (simp add: or_eq_0_iff)

lemma uuid_New_length: "length (fst (uuid_New w)) = 16"
  by (simp add: uuid_New_def Let_def)

lemma uuid_New_not_Nil: "fst (uuid_New w) \<noteq> uuid_Nil"
proof
  assume h: "fst (uuid_New w) = uuid_Nil"
  have "fst (uuid_New w) ! 6 \<noteq> 0"
    by (simp add: uuid_New_def Let_def version_byte_nonzero)
  moreover have "uuid_Nil ! 6 = (0::8 word)"
    by (simp add: uuid_Nil_def)
  ultimately show False using h by simp
qed

text \<open>What one call of \<open>SendNotification\<close> returns and what it does to the environment:
  it draws one UUID, makes one SES call, and leaves the scripted SES outcomes alone.\<close>

lemma SendNotification_result:
  assumes "SendNotification w req = ((n, err), w')"
  shows "err = None"
    and "ID n = fst (uuid_New w)"
    and "CreatedAt n \<le> UpdatedAt n"
    and "Status n = (if ses_outcome w (length (ses_calls w)) = None
                     then NotificationStatusSent else NotificationStatusFailed)"
    and "(SentAt n = None) = (ses_outcome w (length (ses_calls w)) \<noteq> None)"
    and "Priority n =
           (if req_Priority req = [] then NotificationPriorityNormal else req_Priority req)"
    and "TemplateID n = req_TemplateID req"
    and "ses_outcome w' = ses_outcome w"
    and "ses_calls w' = ses_calls w @
           [\<lparr>Source = ''notifications@ticket-system.com'',
             ToAddresses = [req_Recipient req],
             SubjectData = req_Subject req, SubjectCharset = ''UTF-8'',
             BodyTextData = req_Content req, BodyTextCharset = ''UTF-8''\<rparr>]"
  using assms
  by (auto simp: SendNotification_def sendEmailNotification_def ses_SendEmail_def
      uuid_New_def time_Now_def Let_def split: option.splits if_splits prod.splits)

text \<open>A run on the sample environment: the UUID drawn from an all-zero random source,
  the default priority, and the three clock readings.\<close>

lemma SendNotification_sample_run:
  "uuid_String (ID (fst (fst (SendNotification world0 (sample_request [])))))
     = ''00000000-0000-4000-8000-000000000000''
   \<and> Priority (fst (fst (SendNotification world0 (sample_request [])))) = ''normal''
   \<and> Status (fst (fst (SendNotification world0 (sample_request [])))) = ''sent''
   \<and> CreatedAt (fst (fst (SendNotification world0 (sample_request [])))) = 1001
   \<and> UpdatedAt (fst (fst (SendNotification world0 (sample_request [])))) = 1002
   \<and> SentAt (fst (fst (SendNotification world0 (sample_request [])))) = Some 1003"
  by (simp add: SendNotification_def sendEmailNotification_def ses_SendEmail_def
      uuid_New_def time_Now_def world0_def sample_request_def uuid_String_def encodeHex_def
      encodeHexByte_def hextable_def NotificationPriorityNormal_def
      NotificationStatusSent_def NotificationStatusPending_def Let_def upt_rec)

text \<open>
  C1. Whatever the request and the environment, \<open>SendNotification\<close> returns a nil error
  and a Notification whose id is not the nil UUID and prints as a non-empty string (of 36
  characters), whose \<open>created_at\<close> is not after its \<open>updated_at\<close>, and whose status is
  \<open>sent\<close> or \<open>failed\<close>. In particular this holds for the valid requests (recipient,
  subject and content present).
\<close>

theorem SendNotification_wellformed:
  "snd (fst (SendNotification w req)) = None
   \<and> ID (fst (fst (SendNotification w req))) \<noteq> uuid_Nil
   \<and> uuid_String (ID (fst (fst (SendNotification w req)))) \<noteq> []
   \<and> length (uuid_String (ID (fst (fst (SendNotification w req))))) = 36
   \<and> CreatedAt (fst (fst (SendNotification w req)))
        \<le> UpdatedAt (fst (fst (SendNotification w req)))
   \<and> (Status (fst (fst (SendNotification w req))) = NotificationStatusSent
        \<or> Status (fst (fst (SendNotification w req))) = NotificationStatusFailed)"
proof -
  obtain n err w' where sn: "SendNotification w req = ((n, err), w')"
    by (metis surj_pair)
  note r = SendNotification_result [OF sn]
  have len: "length (uuid_String (ID n)) = 36"
    by (simp add: r(2) length_uuid_String uuid_New_length)
  then have "uuid_String (ID n) \<noteq> []"
    by auto
  moreover have "ID n \<noteq> uuid_Nil"
    by (simp add: r(2) uuid_New_not_Nil)
  ultimately show ?thesis
    using sn r(1,3,4) len by simp
qed

text \<open>
  C2. \<open>SendNotification\<close> makes exactly one SES call, for the request's recipient,
  subject and content, and returns a nil error whatever its outcome. If that call fails,
  the returned Notification has status \<open>failed\<close> and no \<open>sent_at\<close>; if it succeeds, the
  status is \<open>sent\<close> and \<open>sent_at\<close> is set.
\<close>

theorem SendNotification_send_outcome:
  "snd (fst (SendNotification w req)) = None
   \<and> ses_calls (snd (SendNotification w req)) = ses_calls w @
        [\<lparr>Source = ''notifications@ticket-system.com'',
          ToAddresses = [req_Recipient req],
          SubjectData = req_Subject req, SubjectCharset = ''UTF-8'',
          BodyTextData = req_Content req, BodyTextCharset = ''UTF-8''\<rparr>]
   \<and> (ses_outcome w (length (ses_calls w)) \<noteq> None \<longrightarrow>
        Status (fst (fst (SendNotification w req))) = NotificationStatusFailed
        \<and> SentAt (fst (fst (SendNotification w req))) = None)
   \<and> (ses_outcome w (length (ses_calls w)) = None \<longrightarrow>
        Status (fst (fst (SendNotification w req))) = NotificationStatusSent
        \<and> SentAt (fst (fst (SendNotification w req))) \<noteq> None)"
proof -
  obtain n err w' where sn: "SendNotification w req = ((n, err), w')"
    by (metis surj_pair)
  note r = SendNotification_result [OF sn]
  show ?thesis
    using sn r(1,4,5,9) by simp
qed

theorem SendNotification_send_outcome_witness:
  "Status (fst (fst (SendNotification world_ses_down (sample_request ''high''))))
     = ''failed''
   \<and> SentAt (fst (fst (SendNotification world_ses_down (sample_request ''high'')))) = None
   \<and> snd (fst (SendNotification world_ses_down (sample_request ''high''))) = None
   \<and> Status (fst (fst (SendNotification world0 (sample_request ''high'')))) = ''sent''
   \<and> SentAt (fst (fst (SendNotification world0 (sample_request ''high'')))) \<noteq> None"
  using SendNotification_send_outcome [of world_ses_down "sample_request ''high''"]
    SendNotification_send_outcome [of world0 "sample_request ''high''"]
  by (simp add: world_ses_down_def world0_def NotificationStatusFailed_def
      NotificationStatusSent_def)

section \<open>Properties of SendBulkNotifications\<close>

lemma SendBulkNotifications_loop_spec:
  "SendBulkNotifications_loop req w rs ns es = ((ns', es'), w') \<Longrightarrow>
     es' = es \<and> ses_outcome w' = ses_outcome w \<and>
     length (ses_calls w') = length (ses_calls w) + length rs \<and>
     (\<exists>new. ns' = ns @ new \<and>
        map Status new = map (item_status w) [0..<length rs] \<and>
        map Priority new = map (item_priority req) rs \<and>
        map TemplateID new = map (item_template req) rs)"
proof (induction rs arbitrary: w ns es)
  case Nil
  then show ?case by simp
next
  case (Cons item rest)
  define r where "r =
    (if bulk_TemplateID req \<noteq> []
     then (if bulk_Priority req \<noteq> [] then item\<lparr>req_Priority := bulk_Priority req\<rparr>
           else item)\<lparr>req_TemplateID := bulk_TemplateID req\<rparr>
     else (if bulk_Priority req \<noteq> [] then item\<lparr>req_Priority := bulk_Priority req\<rparr>
           else item))"
  obtain n err w1 where sn: "SendNotification w r = ((n, err), w1)"
    by (metis surj_pair)
  note facts = SendNotification_result [OF sn]
  from Cons.prems sn facts(1)
  have rec: "SendBulkNotifications_loop req w1 rest (ns @ [n]) es = ((ns', es'), w')"
    by (simp add: r_def Let_def)
  from Cons.IH [OF rec] obtain new where
    a: "es' = es" "ses_outcome w' = ses_outcome w1"
       "length (ses_calls w') = length (ses_calls w1) + length rest"
       "ns' = (ns @ [n]) @ new"
       "map Status new = map (item_status w1) [0..<length rest]"
       "map Priority new = map (item_priority req) rest"
       "map TemplateID new = map (item_template req) rest"
    by blast
  have shift: "item_status w1 i = item_status w (Suc i)" for i
    by (simp add: item_status_def facts(8,9))
  have p: "Priority n = item_priority req item"
    by (simp add: facts(6) item_priority_def r_def)
  have t: "TemplateID n = item_template req item"
    by (simp add: facts(7) item_template_def r_def)
  have s: "Status n = item_status w 0"
    by (simp add: facts(4) item_status_def)
  have "map Status (n # new) = map (item_status w) [0..<length (item # rest)]"
    using a(5) s by (simp add: map_upt_Suc shift del: upt_Suc)
  with a p t facts(8,9) show ?case
    by (intro conjI exI [of _ "n # new"]) simp_all
qed

lemma SendBulkNotifications_spec:
  "snd (fst (SendBulkNotifications w req)) = None
   \<and> ses_outcome (snd (SendBulkNotifications w req)) = ses_outcome w
   \<and> length (ses_calls (snd (SendBulkNotifications w req)))
       = length (ses_calls w) + length (bulk_Notifications req)
   \<and> map Status (fst (fst (SendBulkNotifications w req)))
       = map (item_status w) [0..<length (bulk_Notifications req)]
   \<and> map Priority (fst (fst (SendBulkNotifications w req)))
       = map (item_priority req) (bulk_Notifications req)
   \<and> map TemplateID (fst (fst (SendBulkNotifications w req)))
       = map (item_template req) (bulk_Notifications req)"
proof -
  obtain ns es w' where
    l: "SendBulkNotifications_loop req w (bulk_Notifications req) [] [] = ((ns, es), w')"
    by (metis surj_pair)
  from SendBulkNotifications_loop_spec [OF l] l show ?thesis
    by (auto simp: SendBulkNotifications_def)
qed

text \<open>
  C3. When the batch carries a non-empty priority, every Notification that
  \<open>SendBulkNotifications\<close> returns has that priority, whatever priority its item had; and
  when the batch carries a non-empty template id, every returned Notification has that
  template id.
\<close>

theorem SendBulkNotifications_overrides:
  "(bulk_Priority req \<noteq> [] \<longrightarrow>
      (\<forall>n \<in> set (fst (fst (SendBulkNotifications w req))). Priority n = bulk_Priority req))
   \<and> (bulk_TemplateID req \<noteq> [] \<longrightarrow>
      (\<forall>n \<in> set (fst (fst (SendBulkNotifications w req))).
         TemplateID n = bulk_TemplateID req))"
proof -
  let ?ns = "fst (fst (SendBulkNotifications w req))"
  have p: "map Priority ?ns = map (item_priority req) (bulk_Notifications req)"
    and t: "map TemplateID ?ns = map (item_template req) (bulk_Notifications req)"
    using SendBulkNotifications_spec [of w req] by simp_all
  have "Priority n = bulk_Priority req" if "bulk_Priority req \<noteq> []" "n \<in> set ?ns" for n
  proof -
    have "Priority n \<in> set (map Priority ?ns)" using that(2) by simp
    then show ?thesis unfolding p using that(1) by (auto simp: item_priority_def)
  qed
  moreover
  have "TemplateID n = bulk_TemplateID req" if "bulk_TemplateID req \<noteq> []" "n \<in> set ?ns" for n
  proof -
    have "TemplateID n \<in> set (map TemplateID ?ns)" using that(2) by simp
    then show ?thesis unfolding t using that(1) by (auto simp: item_template_def)
  qed
  ultimately show ?thesis by blast
qed

theorem SendBulkNotifications_overrides_witness:
  "map req_Priority (bulk_Notifications sample_bulk) = replicate 5 ''low''
   \<and> length (fst (fst (SendBulkNotifications world0 sample_bulk))) = 5
   \<and> list_all (\<lambda>n. Priority n = ''urgent'' \<and> TemplateID n = ''batch_template'')
         (fst (fst (SendBulkNotifications world0 sample_bulk)))"
proof -
  have "length (map Status (fst (fst (SendBulkNotifications world0 sample_bulk)))) = 5"
    unfolding SendBulkNotifications_spec [of world0 sample_bulk, THEN conjunct2,
        THEN conjunct2, THEN conjunct2, THEN conjunct1]
    by (simp add: sample_bulk_def)
  then show ?thesis
    using SendBulkNotifications_overrides [of sample_bulk world0]
    by (simp add: sample_bulk_def sample_request_def list_all_iff)
qed

text \<open>
  C4. For a batch of N items \<open>SendBulkNotifications\<close> returns a nil error and N
  Notifications, in the order of the items, and makes N SES calls, one per item: the
  Notification at position \<open>i\<close> has status \<open>failed\<close> if the SES call of item \<open>i\<close> failed and
  status \<open>sent\<close> if it succeeded. A failed item therefore stops nothing.
\<close>

theorem SendBulkNotifications_partial_failure:
  "snd (fst (SendBulkNotifications w req)) = None
   \<and> length (fst (fst (SendBulkNotifications w req))) = length (bulk_Notifications req)
   \<and> length (ses_calls (snd (SendBulkNotifications w req)))
       = length (ses_calls w) + length (bulk_Notifications req)
   \<and> (\<forall>i. i < length (bulk_Notifications req) \<longrightarrow>
        Status (fst (fst (SendBulkNotifications w req)) ! i)
          = (if ses_outcome w (length (ses_calls w) + i) = None
             then NotificationStatusSent else NotificationStatusFailed))"
proof -
  let ?ns = "fst (fst (SendBulkNotifications w req))"
  let ?N = "length (bulk_Notifications req)"
  note spec = SendBulkNotifications_spec [of w req]
  have st: "map Status ?ns = map (item_status w) [0..<?N]"
    using spec by simp
  have "length (map Status ?ns) = ?N"
    unfolding st by simp
  then have len: "length ?ns = ?N"
    by simp
  have "Status (?ns ! i) = item_status w i" if "i < ?N" for i
  proof -
    have "Status (?ns ! i) = map Status ?ns ! i"
      using that len by simp
    also have "\<dots> = item_status w i"
      unfolding st using that by simp
    finally show ?thesis .
  qed
  then show ?thesis
    using spec len by (simp add: item_status_def)
qed

theorem SendBulkNotifications_partial_failure_witness:
  "length (bulk_Notifications sample_bulk) = 5
   \<and> snd (fst (SendBulkNotifications world_ses_2_4 sample_bulk)) = None
   \<and> length (fst (fst (SendBulkNotifications world_ses_2_4 sample_bulk))) = 5
   \<and> Status (fst (fst (SendBulkNotifications world_ses_2_4 sample_bulk)) ! 0) = ''sent''
   \<and> Status (fst (fst (SendBulkNotifications world_ses_2_4 sample_bulk)) ! 1) = ''failed''
   \<and> Status (fst (fst (SendBulkNotifications world_ses_2_4 sample_bulk)) ! 2) = ''sent''
   \<and> Status (fst (fst (SendBulkNotifications world_ses_2_4 sample_bulk)) ! 3) = ''failed''
   \<and> Status (fst (fst (SendBulkNotifications world_ses_2_4 sample_bulk)) ! 4) = ''sent''"
proof -
  have n: "length (bulk_Notifications sample_bulk) = 5"
    by (simp add: sample_bulk_def)
  have o: "ses_outcome world_ses_2_4 (length (ses_calls world_ses_2_4) + i)
             = (if i = 1 \<or> i = 3 then Some ''MessageRejected'' else None)" for i
    by (simp add: world_ses_2_4_def world0_def)
  show ?thesis
    using SendBulkNotifications_partial_failure [of world_ses_2_4 sample_bulk]
    by (simp add: n o NotificationStatusFailed_def NotificationStatusSent_def)
qed

section \<open>Properties of the event notifications\<close>

lemma SendEventNotification_effect:
  "SendEventNotification w c msg =
     (map_option (\<lambda>e. ''error sending event notification: '' @ e)
        (sqs_send_outcome w (length (sqs_ops w))),
      w\<lparr>sqs_ops := sqs_ops w @
           [SendMessage (QueueURL c) msg
              [(''Type'', ''event_notification''), (''EventID'', msg_EventID msg),
               (''Priority'', msg_Priority msg)]]\<rparr>)"
  by (simp add: SendEventNotification_def sqs_SendMessage_def split: option.splits)

lemma immediate_email_effect:
  "sqs_ops (snd (sendEmailNotification (snd (time_Now (snd (time_Now (snd (uuid_New w))))))
                   n)) = sqs_ops w
   \<and> length (ses_calls (snd (sendEmailNotification
                (snd (time_Now (snd (time_Now (snd (uuid_New w)))))) n)))
       = Suc (length (ses_calls w))"
  by (simp add: sendEmailNotification_def ses_SendEmail_def time_Now_def uuid_New_def
      Let_def split: option.splits)

text \<open>
  C5, as the code has it. \<open>NotifyEventCreated\<close> makes exactly one send call on the events
  queue. If that call fails, it returns an error and attempts no email. If it succeeds,
  it returns nil, and it attempts exactly one email when the priority is \<open>high\<close> or
  \<open>urgent\<close> and none otherwise; the outcome of that email does not enter the result.
\<close>

theorem NotifyEventCreated_routing:
  "(\<exists>body attrs. sqs_ops (snd (NotifyEventCreated w s req))
       = sqs_ops w @ [SendMessage (QueueURL (eventQueue s)) body attrs])
   \<and> (sqs_send_outcome w (length (sqs_ops w)) \<noteq> None \<longrightarrow>
        fst (NotifyEventCreated w s req) \<noteq> None
        \<and> ses_calls (snd (NotifyEventCreated w s req)) = ses_calls w)
   \<and> (sqs_send_outcome w (length (sqs_ops w)) = None \<longrightarrow>
        fst (NotifyEventCreated w s req) = None
        \<and> length (ses_calls (snd (NotifyEventCreated w s req)))
            = length (ses_calls w)
              + (if ev_Priority req = NotificationPriorityHigh
                    \<or> ev_Priority req = NotificationPriorityUrgent then 1 else 0))"
proof (cases "sqs_send_outcome w (length (sqs_ops w))")
  case None
  then show ?thesis
    by (simp add: NotifyEventCreated_def SendEventNotification_effect Let_def
        case_prod_beta immediate_email_effect)
next
  case (Some e)
  then show ?thesis
    by (simp add: NotifyEventCreated_def SendEventNotification_effect Let_def)
qed

theorem NotifyEventCreated_routing_witness:
  "fst (NotifyEventCreated world0 service0 (sample_event ''low'')) = None
   \<and> length (ses_calls (snd (NotifyEventCreated world0 service0 (sample_event ''low'')))) = 0
   \<and> fst (NotifyEventCreated world_ses_down service0 (sample_event ''urgent'')) = None
   \<and> length (ses_calls (snd (NotifyEventCreated world_ses_down service0
                               (sample_event ''urgent'')))) = 1
   \<and> fst (NotifyEventCreated world_sqs_down service0 (sample_event ''urgent'')) \<noteq> None
   \<and> ses_calls (snd (NotifyEventCreated world_sqs_down service0 (sample_event ''urgent'')))
       = []"
  using NotifyEventCreated_routing [of world0 service0 "sample_event ''low''"]
    NotifyEventCreated_routing [of world_ses_down service0 "sample_event ''urgent''"]
    NotifyEventCreated_routing [of world_sqs_down service0 "sample_event ''urgent''"]
  by (simp add: world0_def world_ses_down_def world_sqs_down_def sample_event_def
      NotificationPriorityHigh_def NotificationPriorityUrgent_def)

text \<open>
  C5 as stated fails: with priority \<open>urgent\<close> and an events queue that refuses the
  message, \<open>NotifyEventCreated\<close> returns the error and attempts no email.
\<close>

theorem NotifyEventCreated_counterexample:
  "ev_Priority (sample_event ''urgent'') = NotificationPriorityUrgent
   \<and> fst (NotifyEventCreated world_sqs_down service0 (sample_event ''urgent''))
       = Some (''error sending event notification to queue: ''
               @ ''error sending event notification: QueueDoesNotExist'')
   \<and> \<not> (length (ses_calls (snd (NotifyEventCreated world_sqs_down service0
                                   (sample_event ''urgent''))))
            = length (ses_calls world_sqs_down) + 1
          \<longleftrightarrow> ev_Priority (sample_event ''urgent'') = NotificationPriorityHigh
              \<or> ev_Priority (sample_event ''urgent'') = NotificationPriorityUrgent)"
  by (simp add: NotifyEventCreated_def SendEventNotification_effect world_sqs_down_def
      world0_def sample_event_def NotificationPriorityUrgent_def)

text \<open>
  C6, as the code has it. \<open>NotifyEventCancelled\<close> makes exactly one send call on the
  events queue, whatever the priority. If that call fails, the failure is returned as an
  error and no email is attempted. If it succeeds, exactly one email is attempted,
  whatever the priority, and the call returns nil whatever the outcome of the email.
\<close>

theorem NotifyEventCancelled_routing:
  "(\<exists>body attrs. sqs_ops (snd (NotifyEventCancelled w s req))
       = sqs_ops w @ [SendMessage (QueueURL (eventQueue s)) body attrs])
   \<and> (sqs_send_outcome w (length (sqs_ops w)) \<noteq> None \<longrightarrow>
        fst (NotifyEventCancelled w s req) \<noteq> None
        \<and> ses_calls (snd (NotifyEventCancelled w s req)) = ses_calls w)
   \<and> (sqs_send_outcome w (length (sqs_ops w)) = None \<longrightarrow>
        fst (NotifyEventCancelled w s req) = None
        \<and> length (ses_calls (snd (NotifyEventCancelled w s req)))
            = length (ses_calls w) + 1)"
proof (cases "sqs_send_outcome w (length (sqs_ops w))")
  case None
  then show ?thesis
    by (simp add: NotifyEventCancelled_def SendEventNotification_effect Let_def
        case_prod_beta immediate_email_effect)
next
  case (Some e)
  then show ?thesis
    by (simp add: NotifyEventCancelled_def SendEventNotification_effect Let_def)
qed

theorem NotifyEventCancelled_routing_witness:
  "fst (NotifyEventCancelled world_ses_down service0 (sample_event ''low'')) = None
   \<and> length (ses_calls (snd (NotifyEventCancelled world_ses_down service0
                               (sample_event ''low'')))) = 1
   \<and> fst (NotifyEventCancelled world_sqs_down service0 (sample_event ''low'')) \<noteq> None
   \<and> ses_calls (snd (NotifyEventCancelled world_sqs_down service0 (sample_event ''low'')))
       = []"
  using NotifyEventCancelled_routing [of world_ses_down service0 "sample_event ''low''"]
    NotifyEventCancelled_routing [of world_sqs_down service0 "sample_event ''low''"]
  by (simp add: world0_def world_ses_down_def world_sqs_down_def)

text \<open>
  C6 as stated fails: when the events queue refuses the message,
  \<open>NotifyEventCancelled\<close> returns the error and the email is not attempted.
\<close>

theorem NotifyEventCancelled_counterexample:
  "fst (NotifyEventCancelled world_sqs_down service0 (sample_event ''low''))
       = Some (''error sending event cancellation to queue: ''
               @ ''error sending event notification: QueueDoesNotExist'')
   \<and> \<not> (length (ses_calls (snd (NotifyEventCancelled world_sqs_down service0
                                   (sample_event ''low''))))
            = length (ses_calls world_sqs_down) + 1)"
  by (simp add: NotifyEventCancelled_def SendEventNotification_effect world_sqs_down_def
      world0_def)

section \<open>Properties of the queue processor\<close>

lemma DeleteMessage_client_ops:
  "sqs_ops (snd (DeleteMessage_client w c h)) = sqs_ops w @ [DeleteMessage (QueueURL c) h]"
  by (simp add: DeleteMessage_client_def sqs_DeleteMessage_def split: option.splits)

text \<open>The loop, for any handler: one delete call for each message the handler accepts,
  in order, and nothing for a message it rejects.\<close>

lemma ProcessNotificationQueue_loop_ops:
  "sqs_ops (ProcessNotificationQueue_loop handler w c qt messages) =
     sqs_ops w @ map (\<lambda>m. DeleteMessage (QueueURL c) (ReceiptHandle m))
                   (filter (\<lambda>m. handler m qt = None) messages)"
proof (induction messages arbitrary: w)
  case Nil
  then show ?case by simp
next
  case (Cons m rest)
  show ?case
  proof (cases "handler m qt")
    case None
    then show ?thesis
      using Cons.IH [of "snd (DeleteMessage_client w c (ReceiptHandle m))"]
      by (simp add: DeleteMessage_client_ops case_prod_beta)
  next
    case (Some e)
    then show ?thesis
      using Cons.IH [of w] by simp
  qed
qed

lemma ProcessNotificationQueue_loop_failing_handler:
  "sqs_ops (ProcessNotificationQueue_loop
              (\<lambda>m qt. if MessageId m = ''m2'' then Some ''boom'' else None)
              world0 (eventQueue service0) ''events'' sample_messages)
   = [DeleteMessage (QueueURL (eventQueue service0)) ''h1'',
      DeleteMessage (QueueURL (eventQueue service0)) ''h3'']"
proof -
  have "sqs_ops world0 = []"
    by (simp add: world0_def)
  then show ?thesis
    unfolding ProcessNotificationQueue_loop_ops
    by (simp add: sample_messages_def)
qed

lemma ProcessNotificationQueue_valid:
  "sqs_ops (snd (case ReceiveMessages w c 10 of
       (r, w1) \<Rightarrow>
         (case r of
            Inl e \<Rightarrow> (Some (''error receiving messages: '' @ e), w1)
          | Inr messages \<Rightarrow>
              (None, ProcessNotificationQueue_loop handler w1 c qt messages))))
     = sqs_ops w @ ReceiveMessage (QueueURL c) 10 10 [''All''] #
         (case sqs_receive_outcome w (length (sqs_ops w)) of
            Inl e \<Rightarrow> []
          | Inr messages \<Rightarrow>
              map (\<lambda>m. DeleteMessage (QueueURL c) (ReceiptHandle m))
                (filter (\<lambda>m. handler m qt = None) messages))"
  by (cases "sqs_receive_outcome w (length (sqs_ops w))")
    (simp_all add: ReceiveMessages_def sqs_ReceiveMessage_def
      ProcessNotificationQueue_loop_ops)

lemma ProcessNotificationQueue_unfold:
  "queueType \<in> {''events'', ''reservations'', ''reminders''} \<Longrightarrow>
   ProcessNotificationQueue w s queueType =
     (case ReceiveMessages w
             (if queueType = ''events'' then eventQueue s
              else if queueType = ''reservations'' then reservationQueue s
              else reminderQueue s) 10 of
        (r, w1) \<Rightarrow>
          (case r of
             Inl e \<Rightarrow> (Some (''error receiving messages: '' @ e), w1)
           | Inr messages \<Rightarrow>
               (None, ProcessNotificationQueue_loop processMessage w1
                        (if queueType = ''events'' then eventQueue s
                         else if queueType = ''reservations'' then reservationQueue s
                         else reminderQueue s) queueType messages)))"
  by (elim insertE emptyE; hypsubst; simp add: ProcessNotificationQueue_def)

text \<open>
  C7. For a queue type other than \<open>events\<close>, \<open>reservations\<close> and \<open>reminders\<close>,
  \<open>ProcessNotificationQueue\<close> returns the error "invalid queue type" and leaves the
  environment as it was: no receive, no delete, no call at all.
\<close>

theorem ProcessNotificationQueue_invalid:
  "queueType \<notin> {''events'', ''reservations'', ''reminders''} \<Longrightarrow>
     ProcessNotificationQueue w s queueType = (Some (''invalid queue type: '' @ queueType), w)"
  by (simp add: ProcessNotificationQueue_def)

theorem ProcessNotificationQueue_invalid_witness:
  "ProcessNotificationQueue world0 service0 ''invalid''
     = (Some ''invalid queue type: invalid'', world0)
   \<and> sqs_ops (snd (ProcessNotificationQueue world0 service0 ''invalid'')) = []"
proof -
  have "sqs_ops world0 = []"
    by (simp add: world0_def)
  then show ?thesis
    using ProcessNotificationQueue_invalid [of "''invalid''" world0 service0]
    by simp
qed



text \<open>
  C9. \<open>processMessage\<close> returns nil for every message and every queue type. So the loop
  of \<open>ProcessNotificationQueue\<close> never takes its failure branch: it goes on to the delete
  for every message, and after a successful receive the calls are one delete per received
  message. No message is ever left for redelivery because its handler failed.
\<close>

theorem processMessage_always_succeeds:
  "processMessage message queueType = None
   \<and> ProcessNotificationQueue_loop processMessage w client queueType (message # rest)
       = ProcessNotificationQueue_loop processMessage
           (snd (DeleteMessage_client w client (ReceiptHandle message))) client queueType rest
   \<and> (queueType \<in> {''events'', ''reservations'', ''reminders''} \<longrightarrow>
        sqs_receive_outcome w (length (sqs_ops w)) = Inr messages \<longrightarrow>
        sqs_ops (snd (ProcessNotificationQueue w s queueType))
          = sqs_ops w @
              ReceiveMessage
                (QueueURL (if queueType = ''events'' then eventQueue s
                           else if queueType = ''reservations'' then reservationQueue s
                           else reminderQueue s)) 10 10 [''All''] #
              map (\<lambda>m. DeleteMessage
                         (QueueURL (if queueType = ''events'' then eventQueue s
                                    else if queueType = ''reservations'' then reservationQueue s
                                    else reminderQueue s)) (ReceiptHandle m)) messages)"
proof -
  have nil: "processMessage m qt = None" for m qt
    by (simp add: processMessage_def)
  have step: "ProcessNotificationQueue_loop processMessage w client queueType (message # rest)
       = ProcessNotificationQueue_loop processMessage
           (snd (DeleteMessage_client w client (ReceiptHandle message))) client queueType rest"
    by (simp add: nil split: prod.splits)
  have ops: "sqs_ops (snd (ProcessNotificationQueue w s queueType))
          = sqs_ops w @ ReceiveMessage (QueueURL c) 10 10 [''All''] #
              map (\<lambda>m. DeleteMessage (QueueURL c) (ReceiptHandle m)) messages"
    if "queueType \<in> {''events'', ''reservations'', ''reminders''}"
      and "sqs_receive_outcome w (length (sqs_ops w)) = Inr messages"
      and "c = (if queueType = ''events'' then eventQueue s
                else if queueType = ''reservations'' then reservationQueue s
                else reminderQueue s)"
    for c
  proof -
    have "ProcessNotificationQueue w s queueType =
      (case ReceiveMessages w c 10 of
         (r, w1) \<Rightarrow>
           (case r of
              Inl e \<Rightarrow> (Some (''error receiving messages: '' @ e), w1)
            | Inr messages \<Rightarrow>
                (None, ProcessNotificationQueue_loop processMessage w1 c queueType
                         messages)))"
      unfolding that(3) by (rule ProcessNotificationQueue_unfold [OF that(1)])
    then show ?thesis
      using ProcessNotificationQueue_valid
        [where w = w and c = c and handler = processMessage and qt = queueType]
      by (simp add: that(2) nil)
  qed
  have ops': "queueType \<in> {''events'', ''reservations'', ''reminders''} \<longrightarrow>
        sqs_receive_outcome w (length (sqs_ops w)) = Inr messages \<longrightarrow>
        sqs_ops (snd (ProcessNotificationQueue w s queueType))
          = sqs_ops w @
              ReceiveMessage
                (QueueURL (if queueType = ''events'' then eventQueue s
                           else if queueType = ''reservations'' then reservationQueue s
                           else reminderQueue s)) 10 10 [''All''] #
              map (\<lambda>m. DeleteMessage
                         (QueueURL (if queueType = ''events'' then eventQueue s
                                    else if queueType = ''reservations'' then reservationQueue s
                                    else reminderQueue s)) (ReceiptHandle m)) messages"
    by (intro impI, rule ops [OF _ _ refl], assumption+)
  show ?thesis
    by (intro conjI) (rule nil, rule step, rule ops')
qed

theorem processMessage_always_succeeds_witness:
  "processMessage (hd sample_messages) ''reminders'' = None
   \<and> sqs_ops (snd (ProcessNotificationQueue world0 service0 ''reminders''))
       = [ReceiveMessage ''http://localhost:4566/000000000000/reminder-notifications'' 10 10
            [''All''],
          DeleteMessage ''http://localhost:4566/000000000000/reminder-notifications'' ''h1'',
          DeleteMessage ''http://localhost:4566/000000000000/reminder-notifications'' ''h2'',
          DeleteMessage ''http://localhost:4566/000000000000/reminder-notifications'' ''h3'']"
proof -
  have ops: "sqs_ops world0 = []"
    and rcv: "sqs_receive_outcome world0 0 = Inr sample_messages"
    by (simp_all add: world0_def)
  have url: "QueueURL (reminderQueue service0)
               = ''http://localhost:4566/000000000000/reminder-notifications''"
    by (simp add: service0_def)
  from processMessage_always_succeeds
    [of "hd sample_messages" "''reminders''" world0 "reminderQueue service0" "[]"
        sample_messages service0]
  have "processMessage (hd sample_messages) ''reminders'' = None
    \<and> sqs_ops (snd (ProcessNotificationQueue world0 service0 ''reminders''))
        = ReceiveMessage ''http://localhost:4566/000000000000/reminder-notifications'' 10 10
            [''All''] #
          map (\<lambda>m. DeleteMessage ''http://localhost:4566/000000000000/reminder-notifications''
                     (ReceiptHandle m)) sample_messages"
    by (simp add: ops rcv url)
  then show ?thesis
    by (simp add: sample_messages_def)
qed

section \<open>Properties of UpdateNotification\<close>






end
